theory Spec2Isabelle
  imports Main "HOL-Library.Word"
begin

section \<open>Enums and conversion tables of dekode/models.py\<close>

text \<open>
  The three \<^verbatim>\<open>StrEnum\<close> classes. Every member's string value is its own name; the
  \<open>_value\<close> functions give it.
\<close>

datatype ChangeType =
  MODIFY_FUNCTION | ADD_FUNCTION | DELETE_FUNCTION | MODIFY_TYPE | ADD_TYPE | ADD_DEPENDENCY

datatype ContextDepth = SIGNATURES | FULL | CALL_GRAPH

datatype SubmitStatus = ACCEPTED | REJECTED | CONFLICT

fun ChangeType_value :: "ChangeType \<Rightarrow> string" where
  "ChangeType_value MODIFY_FUNCTION = ''MODIFY_FUNCTION''"
| "ChangeType_value ADD_FUNCTION = ''ADD_FUNCTION''"
| "ChangeType_value DELETE_FUNCTION = ''DELETE_FUNCTION''"
| "ChangeType_value MODIFY_TYPE = ''MODIFY_TYPE''"
| "ChangeType_value ADD_TYPE = ''ADD_TYPE''"
| "ChangeType_value ADD_DEPENDENCY = ''ADD_DEPENDENCY''"

fun ContextDepth_value :: "ContextDepth \<Rightarrow> string" where
  "ContextDepth_value SIGNATURES = ''SIGNATURES''"
| "ContextDepth_value FULL = ''FULL''"
| "ContextDepth_value CALL_GRAPH = ''CALL_GRAPH''"

fun SubmitStatus_value :: "SubmitStatus \<Rightarrow> string" where
  "SubmitStatus_value ACCEPTED = ''ACCEPTED''"
| "SubmitStatus_value REJECTED = ''REJECTED''"
| "SubmitStatus_value CONFLICT = ''CONFLICT''"

text \<open>
  The generated protobuf module \<^verbatim>\<open>agent_pb2\<close> is not part of the sources. Its enum
  constants (\<^verbatim>\<open>agent_pb2.MODIFY_FUNCTION\<close>, \<^verbatim>\<open>agent_pb2.FULL\<close>, ...) are plain
  integers; the module is taken as a parameter \<open>pb\<close>, the function from a constant's
  name to its number.
\<close>

type_synonym agent_pb2 = "string \<Rightarrow> int"

text \<open>
  A Python dict literal, read left to right: a later entry with an equal key replaces an
  earlier one. The same function gives a dict comprehension over a list of pairs.
\<close>

definition dict_of :: "('k \<times> 'v) list \<Rightarrow> ('k \<rightharpoonup> 'v)" where
  "dict_of kvs = fold (\<lambda>(k, v) m. m(k \<mapsto> v)) kvs Map.empty"

text \<open>\<^verbatim>\<open>_CHANGE_TYPE_TO_PROTO\<close>, as its items in insertion order (the keys are distinct).\<close>

definition CHANGE_TYPE_TO_PROTO :: "agent_pb2 \<Rightarrow> (ChangeType \<times> int) list" where
  "CHANGE_TYPE_TO_PROTO pb =
     [(MODIFY_FUNCTION, pb ''MODIFY_FUNCTION''),
      (ADD_FUNCTION, pb ''ADD_FUNCTION''),
      (DELETE_FUNCTION, pb ''DELETE_FUNCTION''),
      (MODIFY_TYPE, pb ''MODIFY_TYPE''),
      (ADD_TYPE, pb ''ADD_TYPE''),
      (ADD_DEPENDENCY, pb ''ADD_DEPENDENCY'')]"

text \<open>\<^verbatim>\<open>{v: k for k, v in _CHANGE_TYPE_TO_PROTO.items()}\<close>\<close>

definition CHANGE_TYPE_FROM_PROTO :: "agent_pb2 \<Rightarrow> (int \<rightharpoonup> ChangeType)" where
  "CHANGE_TYPE_FROM_PROTO pb = dict_of (map (\<lambda>(k, v). (v, k)) (CHANGE_TYPE_TO_PROTO pb))"

definition CONTEXT_DEPTH_TO_PROTO :: "agent_pb2 \<Rightarrow> (ContextDepth \<times> int) list" where
  "CONTEXT_DEPTH_TO_PROTO pb =
     [(SIGNATURES, pb ''SIGNATURES''),
      (FULL, pb ''FULL''),
      (CALL_GRAPH, pb ''CALL_GRAPH'')]"

definition SUBMIT_STATUS_FROM_PROTO :: "agent_pb2 \<Rightarrow> (int \<rightharpoonup> SubmitStatus)" where
  "SUBMIT_STATUS_FROM_PROTO pb =
     dict_of
       [(pb ''ACCEPTED'', ACCEPTED),
        (pb ''REJECTED'', REJECTED),
        (pb ''CONFLICT'', CONFLICT)]"

text \<open>
  What a call can raise: \<^verbatim>\<open>KeyError\<close> from a dict subscript, \<^verbatim>\<open>grpc.RpcError\<close> from
  a stub call (with the status code's name), \<^verbatim>\<open>UnicodeDecodeError\<close> from decoding.
\<close>

datatype error = KeyError | RpcError string | UnicodeDecodeError

text \<open>A subscript \<^verbatim>\<open>d[k]\<close> on a dict given by its items.\<close>

definition subscript :: "('k \<times> 'v) list \<Rightarrow> 'k \<Rightarrow> error + 'v" where
  "subscript d k = (case map_of d k of None \<Rightarrow> Inl KeyError | Some v \<Rightarrow> Inr v)"

definition subscript_map :: "('k \<rightharpoonup> 'v) \<Rightarrow> 'k \<Rightarrow> error + 'v" where
  "subscript_map d k = (case d k of None \<Rightarrow> Inl KeyError | Some v \<Rightarrow> Inr v)"

text \<open>A numbering in which the constants of each enum are pairwise different.\<close>

definition example_pb2 :: agent_pb2 where
  "example_pb2 name =
     (case map_of
        [(''MODIFY_FUNCTION'', 0), (''ADD_FUNCTION'', 1), (''DELETE_FUNCTION'', 2),
         (''MODIFY_TYPE'', 3), (''ADD_TYPE'', 4), (''ADD_DEPENDENCY'', 5),
         (''SIGNATURES'', 0), (''FULL'', 1), (''CALL_GRAPH'', 2),
         (''ACCEPTED'', 0), (''REJECTED'', 1), (''CONFLICT'', 2)] name of
        None \<Rightarrow> 0
      | Some n \<Rightarrow> n)"

section \<open>Protobuf messages and the models of dekode/models.py\<close>

text \<open>
  The messages of the generated modules, as far as the code reads or writes them. A
  field the code tests with \<^verbatim>\<open>HasField\<close> is an option (\<open>None\<close>: not set); a
  repeated field is a list; a \<^verbatim>\<open>str\<close> that is only copied is a \<open>string\<close>. The
  integer fields keep their values as \<open>int\<close>: the widths are declared in the generated
  modules.
\<close>

record pb_SymbolRef =
  ref_id :: string
  ref_name :: string
  ref_qualified_name :: string
  ref_kind :: string
  ref_visibility :: string
  ref_file_path :: string
  ref_start_byte :: int
  ref_end_byte :: int
  ref_signature :: string
  ref_doc_comment :: "string option"
  ref_parent_id :: "string option"

record pb_SymbolResult =
  sr_symbol :: pb_SymbolRef
  sr_source :: "string option"
  sr_caller_ids :: "string list"
  sr_callee_ids :: "string list"

record pb_CallEdgeRef =
  er_caller_id :: string
  er_callee_id :: string
  er_kind :: string

record pb_DependencyRef =
  dr_package :: string
  dr_version_req :: string
  dr_used_by_symbol_ids :: "string list"

record pb_ContextRequest =
  creq_session_id :: string
  creq_query :: string
  creq_depth :: int
  creq_include_tests :: bool
  creq_include_dependencies :: bool
  creq_max_tokens :: int

record pb_ContextResponse =
  cresp_symbols :: "pb_SymbolResult list"
  cresp_call_graph :: "pb_CallEdgeRef list"
  cresp_dependencies :: "pb_DependencyRef list"
  cresp_estimated_tokens :: int

record pb_Change =
  pbc_type :: int
  pbc_symbol_name :: string
  pbc_file_path :: string
  pbc_new_source :: string
  pbc_rationale :: string
  pbc_old_symbol_id :: "string option"

record pb_SubmitRequest =
  sreq_session_id :: string
  sreq_intent :: string
  sreq_changes :: "pb_Change list"

record pb_SubmitError =
  pbe_message :: string
  pbe_symbol_id :: "string option"
  pbe_file_path :: "string option"

record pb_SubmitResponse =
  sresp_status :: int
  sresp_changeset_id :: string
  sresp_new_version :: "string option"
  sresp_errors :: "pb_SubmitError list"

record pb_FileReadRequest =
  freq_session_id :: string
  freq_path :: string

record pb_FileReadResponse =
  fresp_content :: "8 word list"
  fresp_hash :: string
  fresp_modified_in_session :: bool

record pb_SessionStatusRequest =
  streq_session_id :: string

record pb_SessionStatusResponse =
  stresp_session_id :: string
  stresp_base_commit :: string
  stresp_files_modified :: "string list"
  stresp_symbols_modified :: "string list"
  stresp_overlay_size_bytes :: int
  stresp_active_other_sessions :: int

text \<open>The pydantic models.\<close>

record CodebaseSummary =
  languages :: "string list"
  total_symbols :: int
  total_files :: int

record Symbol =
  sym_id :: string
  sym_name :: string
  sym_qualified_name :: string
  sym_kind :: string
  sym_visibility :: string
  sym_file_path :: string
  sym_start_byte :: int
  sym_end_byte :: int
  sym_signature :: string
  sym_doc_comment :: "string option"
  sym_parent_id :: "string option"
  sym_source :: "string option"
  sym_caller_ids :: "string list"
  sym_callee_ids :: "string list"

record CallEdge =
  edge_caller_id :: string
  edge_callee_id :: string
  edge_kind :: string

record Dependency =
  dep_package :: string
  dep_version_req :: string
  dep_used_by_symbol_ids :: "string list"

record SubmitError =
  err_message :: string
  err_symbol_id :: "string option"
  err_file_path :: "string option"

record ContextResult =
  symbols :: "Symbol list"
  call_graph :: "CallEdge list"
  dependencies :: "Dependency list"
  estimated_tokens :: int

record Change =
  change_type :: ChangeType
  symbol_name :: string
  file_path :: string
  new_source :: string
  rationale :: string
  old_symbol_id :: "string option"

record SubmitResult =
  status :: SubmitStatus
  changeset_id :: string
  new_version :: "string option"
  errors :: "SubmitError list"

definition Symbol_from_symbol_result :: "pb_SymbolResult \<Rightarrow> Symbol" where
  "Symbol_from_symbol_result pb =
     (let ref = sr_symbol pb in
      \<lparr>sym_id = ref_id ref,
       sym_name = ref_name ref,
       sym_qualified_name = ref_qualified_name ref,
       sym_kind = ref_kind ref,
       sym_visibility = ref_visibility ref,
       sym_file_path = ref_file_path ref,
       sym_start_byte = ref_start_byte ref,
       sym_end_byte = ref_end_byte ref,
       sym_signature = ref_signature ref,
       sym_doc_comment = ref_doc_comment ref,
       sym_parent_id = ref_parent_id ref,
       sym_source = sr_source pb,
       sym_caller_ids = sr_caller_ids pb,
       sym_callee_ids = sr_callee_ids pb\<rparr>)"

definition CallEdge_from_proto :: "pb_CallEdgeRef \<Rightarrow> CallEdge" where
  "CallEdge_from_proto pb =
     \<lparr>edge_caller_id = er_caller_id pb,
      edge_callee_id = er_callee_id pb,
      edge_kind = er_kind pb\<rparr>"

definition Dependency_from_proto :: "pb_DependencyRef \<Rightarrow> Dependency" where
  "Dependency_from_proto pb =
     \<lparr>dep_package = dr_package pb,
      dep_version_req = dr_version_req pb,
      dep_used_by_symbol_ids = dr_used_by_symbol_ids pb\<rparr>"

definition SubmitError_from_proto :: "pb_SubmitError \<Rightarrow> SubmitError" where
  "SubmitError_from_proto pb =
     \<lparr>err_message = pbe_message pb,
      err_symbol_id = pbe_symbol_id pb,
      err_file_path = pbe_file_path pb\<rparr>"

definition ContextResult_from_proto :: "pb_ContextResponse \<Rightarrow> ContextResult" where
  "ContextResult_from_proto pb =
     \<lparr>symbols = map Symbol_from_symbol_result (cresp_symbols pb),
      call_graph = map CallEdge_from_proto (cresp_call_graph pb),
      dependencies = map Dependency_from_proto (cresp_dependencies pb),
      estimated_tokens = cresp_estimated_tokens pb\<rparr>"

text \<open>
  \<^verbatim>\<open>Change.to_proto\<close>: the subscript on the table can raise; \<^verbatim>\<open>old_symbol_id\<close> is
  passed to the message only when it is not \<^verbatim>\<open>None\<close>.
\<close>

definition Change_to_proto :: "agent_pb2 \<Rightarrow> Change \<Rightarrow> error + pb_Change" where
  "Change_to_proto pb self =
     (case subscript (CHANGE_TYPE_TO_PROTO pb) (change_type self) of
        Inl e \<Rightarrow> Inl e
      | Inr t \<Rightarrow>
          Inr \<lparr>pbc_type = t,
               pbc_symbol_name = symbol_name self,
               pbc_file_path = file_path self,
               pbc_new_source = new_source self,
               pbc_rationale = rationale self,
               pbc_old_symbol_id =
                 (case old_symbol_id self of None \<Rightarrow> None | Some i \<Rightarrow> Some i)\<rparr>)"

definition SubmitResult_from_proto :: "agent_pb2 \<Rightarrow> pb_SubmitResponse \<Rightarrow> error + SubmitResult" where
  "SubmitResult_from_proto pb r =
     (case subscript_map (SUBMIT_STATUS_FROM_PROTO pb) (sresp_status r) of
        Inl e \<Rightarrow> Inl e
      | Inr s \<Rightarrow>
          Inr \<lparr>status = s,
               changeset_id = sresp_changeset_id r,
               new_version = sresp_new_version r,
               errors = map SubmitError_from_proto (sresp_errors r)\<rparr>)"

section \<open>Decoding bytes\<close>

text \<open>
  \<^verbatim>\<open>bytes.decode("utf-8", errors=...)\<close> of the Python runtime. The decoder reads one
  sequence at a time: a well-formed sequence of one to four bytes gives its code point;
  otherwise the longest prefix that could still start a well-formed sequence (at least
  one byte, and all that is left when the input ends inside a sequence) is an error.
  With \<^verbatim>\<open>errors="strict"\<close> the error raises \<^verbatim>\<open>UnicodeDecodeError\<close>; with
  \<^verbatim>\<open>errors="replace"\<close> it becomes U+FFFD (65533) and decoding goes on behind it.
  Overlong forms, surrogates (ED A0..BF) and code points above U+10FFFF are ill-formed.
  A \<^verbatim>\<open>str\<close> that comes out of decoding is its list of code points.
\<close>

datatype decode_errors = Strict | Replace

text \<open>
  A continuation byte is one of 80..BF.
\<close>

definition is_continuation :: "nat \<Rightarrow> bool" where
  "is_continuation b = (128 \<le> b \<and> b < 192)"

text \<open>
  One step: \<open>Decoded cp n\<close> is the code point of the first \<open>n\<close> bytes,
  \<open>Invalid n\<close> an error that covers the first \<open>n\<close> bytes.
\<close>

datatype utf8_step = Decoded nat nat | Invalid nat

definition utf8_next :: "nat \<Rightarrow> nat list \<Rightarrow> utf8_step" where
  "utf8_next ch rest =
     (if ch < 128 then Decoded ch 1
      else if ch < 224 then
        (if ch < 194 then Invalid 1
         else case rest of
           [] \<Rightarrow> Invalid 1
         | ch2 # _ \<Rightarrow>
             if \<not> is_continuation ch2 then Invalid 1
             else Decoded ((ch mod 32) * 64 + ch2 mod 64) 2)
      else if ch < 240 then
        (case rest of
           [] \<Rightarrow> Invalid 1
         | [ch2] \<Rightarrow>
             if \<not> is_continuation ch2 \<or> (if ch2 < 160 then ch = 224 else ch = 237)
             then Invalid 1 else Invalid 2
         | ch2 # ch3 # _ \<Rightarrow>
             if \<not> is_continuation ch2 then Invalid 1
             else if ch = 224 \<and> ch2 < 160 then Invalid 1
             else if ch = 237 \<and> 160 \<le> ch2 then Invalid 1
             else if \<not> is_continuation ch3 then Invalid 2
             else Decoded ((ch mod 16) * 4096 + (ch2 mod 64) * 64 + ch3 mod 64) 3)
      else if ch < 245 then
        (case rest of
           [] \<Rightarrow> Invalid 1
         | [ch2] \<Rightarrow>
             if \<not> is_continuation ch2 \<or> (if ch2 < 144 then ch = 240 else ch = 244)
             then Invalid 1 else Invalid 2
         | [ch2, ch3] \<Rightarrow>
             if \<not> is_continuation ch2 \<or> (if ch2 < 144 then ch = 240 else ch = 244)
             then Invalid 1
             else if \<not> is_continuation ch3 then Invalid 2 else Invalid 3
         | ch2 # ch3 # ch4 # _ \<Rightarrow>
             if \<not> is_continuation ch2 then Invalid 1
             else if ch = 240 \<and> ch2 < 144 then Invalid 1
             else if ch = 244 \<and> 144 \<le> ch2 then Invalid 1
             else if \<not> is_continuation ch3 then Invalid 2
             else if \<not> is_continuation ch4 then Invalid 3
             else Decoded ((ch mod 8) * 262144 + (ch2 mod 64) * 4096 + (ch3 mod 64) * 64
                            + ch4 mod 64) 4)
      else Invalid 1)"

text \<open>
  The loop over the input: after a step over \<open>n\<close> bytes it goes on \<open>n\<close> bytes
  further.
\<close>

function utf8_decode :: "decode_errors \<Rightarrow> nat list \<Rightarrow> error + nat list" where
  "utf8_decode errs [] = Inr []"
| "utf8_decode errs (ch # rest) =
     (case utf8_next ch rest of
        Decoded cp n \<Rightarrow>
          (case utf8_decode errs (drop (n - 1) rest) of
             Inl e \<Rightarrow> Inl e
           | Inr cps \<Rightarrow> Inr (cp # cps))
      | Invalid n \<Rightarrow>
          (case errs of
             Strict \<Rightarrow> Inl UnicodeDecodeError
           | Replace \<Rightarrow>
               (case utf8_decode errs (drop (n - 1) rest) of
                  Inl e \<Rightarrow> Inl e
                | Inr cps \<Rightarrow> Inr (65533 # cps))))"
  by pat_completeness auto
termination
  by (relation "measure (\<lambda>(errs, bs). length bs)") auto

text \<open>
  The bytes of a message are 8-bit words; the decoder works on their values.
\<close>

definition bytes_decode :: "8 word list \<Rightarrow> decode_errors \<Rightarrow> error + nat list" where
  "bytes_decode bs errs = utf8_decode errs (map unat bs)"


section \<open>The session of dekode/session.py\<close>

text \<open>
  The stub of the gRPC service: each method takes a request and returns the response or
  raises \<^verbatim>\<open>grpc.RpcError\<close>. What the server answers is not the SDK's to decide, so
  the stub is a record of arbitrary functions.
\<close>

record AgentServiceStub =
  stub_Context :: "pb_ContextRequest \<Rightarrow> error + pb_ContextResponse"
  stub_Submit :: "pb_SubmitRequest \<Rightarrow> error + pb_SubmitResponse"
  stub_FileRead :: "pb_FileReadRequest \<Rightarrow> error + pb_FileReadResponse"
  stub_GetSessionStatus :: "pb_SessionStatusRequest \<Rightarrow> error + pb_SessionStatusResponse"

record DekodeSession =
  stub :: AgentServiceStub
  session_id :: string
  codebase_version :: string
  summary :: CodebaseSummary

text \<open>
  The requests a method sends are its effect: every method returns them, in order,
  beside its result.
\<close>

datatype rpc_call =
  CallContext pb_ContextRequest
| CallSubmit pb_SubmitRequest
| CallFileRead pb_FileReadRequest
| CallGetSessionStatus pb_SessionStatusRequest

text \<open>The values of the dicts the session returns.\<close>

datatype pyval =
  PStr string
| PText "nat list"
| PInt int
| PBool bool
| PList "pyval list"

text \<open>
  \<^verbatim>\<open>DekodeSession.context\<close>. An argument left out of the call is \<open>None\<close> and takes
  the default of the signature.
\<close>

definition DekodeSession_context ::
  "agent_pb2 \<Rightarrow> DekodeSession \<Rightarrow> string \<Rightarrow> ContextDepth option \<Rightarrow> bool option \<Rightarrow>
   bool option \<Rightarrow> int option \<Rightarrow> rpc_call list \<times> (error + ContextResult)" where
  "DekodeSession_context pb self query depth_arg include_tests_arg include_dependencies_arg
       max_tokens_arg =
     (let depth = (case depth_arg of None \<Rightarrow> FULL | Some d \<Rightarrow> d);
          include_tests = (case include_tests_arg of None \<Rightarrow> False | Some b \<Rightarrow> b);
          include_dependencies =
            (case include_dependencies_arg of None \<Rightarrow> False | Some b \<Rightarrow> b);
          max_tokens = (case max_tokens_arg of None \<Rightarrow> 8000 | Some n \<Rightarrow> n)
      in case subscript (CONTEXT_DEPTH_TO_PROTO pb) depth of
           Inl e \<Rightarrow> ([], Inl e)
         | Inr d \<Rightarrow>
             (let request =
                \<lparr>creq_session_id = session_id self,
                 creq_query = query,
                 creq_depth = d,
                 creq_include_tests = include_tests,
                 creq_include_dependencies = include_dependencies,
                 creq_max_tokens = max_tokens\<rparr>
              in ([CallContext request],
                  case stub_Context (stub self) request of
                    Inl e \<Rightarrow> Inl e
                  | Inr response \<Rightarrow> Inr (ContextResult_from_proto response))))"

text \<open>The list comprehension \<^verbatim>\<open>[c.to_proto() for c in changes]\<close>: the first raise ends it.\<close>

fun to_proto_all :: "agent_pb2 \<Rightarrow> Change list \<Rightarrow> error + pb_Change list" where
  "to_proto_all pb [] = Inr []"
| "to_proto_all pb (c # cs) =
     (case Change_to_proto pb c of
        Inl e \<Rightarrow> Inl e
      | Inr p \<Rightarrow> (case to_proto_all pb cs of Inl e \<Rightarrow> Inl e | Inr ps \<Rightarrow> Inr (p # ps)))"

text \<open>
  \<^verbatim>\<open>DekodeSession.submit\<close>: the changes are serialised before the request is built;
  the status of the response is looked up in \<^verbatim>\<open>_SUBMIT_STATUS_FROM_PROTO\<close>.
\<close>

definition DekodeSession_submit ::
  "agent_pb2 \<Rightarrow> DekodeSession \<Rightarrow> Change list \<Rightarrow> string \<Rightarrow>
   rpc_call list \<times> (error + SubmitResult)" where
  "DekodeSession_submit pb self changes intent =
     (case to_proto_all pb changes of
        Inl e \<Rightarrow> ([], Inl e)
      | Inr ps \<Rightarrow>
          (let request =
             \<lparr>sreq_session_id = session_id self,
              sreq_intent = intent,
              sreq_changes = ps\<rparr>
           in ([CallSubmit request],
               case stub_Submit (stub self) request of
                 Inl e \<Rightarrow> Inl e
               | Inr response \<Rightarrow> SubmitResult_from_proto pb response)))"

text \<open>
  \<^verbatim>\<open>DekodeSession.session_status\<close>: the dict literal, in the order it is written;
  \<^verbatim>\<open>list(...)\<close> of a repeated field is the list of its strings.
\<close>

definition DekodeSession_session_status ::
  "DekodeSession \<Rightarrow> rpc_call list \<times> (error + (string \<times> pyval) list)" where
  "DekodeSession_session_status self =
     (let request = \<lparr>streq_session_id = session_id self\<rparr>
      in ([CallGetSessionStatus request],
          case stub_GetSessionStatus (stub self) request of
            Inl e \<Rightarrow> Inl e
          | Inr response \<Rightarrow>
              Inr [(''session_id'', PStr (stresp_session_id response)),
                   (''base_commit'', PStr (stresp_base_commit response)),
                   (''files_modified'', PList (map PStr (stresp_files_modified response))),
                   (''symbols_modified'', PList (map PStr (stresp_symbols_modified response))),
                   (''overlay_size_bytes'', PInt (stresp_overlay_size_bytes response)),
                   (''active_other_sessions'',
                      PInt (stresp_active_other_sessions response))]))"

text \<open>
  \<^verbatim>\<open>DekodeSession.file_read\<close>: the content is decoded with
  \<^verbatim>\<open>errors="replace"\<close>; a raise of the decoder would be the method's.
\<close>

definition DekodeSession_file_read ::
  "DekodeSession \<Rightarrow> string \<Rightarrow> rpc_call list \<times> (error + (string \<times> pyval) list)" where
  "DekodeSession_file_read self path =
     (let request = \<lparr>freq_session_id = session_id self, freq_path = path\<rparr>
      in ([CallFileRead request],
          case stub_FileRead (stub self) request of
            Inl e \<Rightarrow> Inl e
          | Inr response \<Rightarrow>
              (case bytes_decode (fresp_content response) Replace of
                 Inl e \<Rightarrow> Inl e
               | Inr content \<Rightarrow>
                   Inr [(''content'', PText content),
                        (''hash'', PStr (fresp_hash response)),
                        (''modified_in_session'',
                           PBool (fresp_modified_in_session response))])))"

text \<open>
  A session for examples: a server that knows one session, answers its status and reads
  one file whose third byte is not UTF-8.
\<close>

definition example_stub :: AgentServiceStub where
  "example_stub =
     \<lparr>stub_Context = (\<lambda>r. Inl (RpcError ''UNIMPLEMENTED'')),
      stub_Submit = (\<lambda>r. Inl (RpcError ''UNIMPLEMENTED'')),
      stub_FileRead = (\<lambda>r.
        if freq_session_id r = ''mock-session-1''
        then Inr \<lparr>fresp_content = [0x66, 0x6E, 0xFF, 0xE2, 0x82, 0xAC],
                  fresp_hash = ''h1'',
                  fresp_modified_in_session = True\<rparr>
        else Inl (RpcError ''NOT_FOUND'')),
      stub_GetSessionStatus = (\<lambda>r.
        if streq_session_id r = ''mock-session-1''
        then Inr \<lparr>stresp_session_id = ''mock-session-1'',
                  stresp_base_commit = ''abc123'',
                  stresp_files_modified = [''src/config.rs''],
                  stresp_symbols_modified = [''parse_config''],
                  stresp_overlay_size_bytes = 120,
                  stresp_active_other_sessions = 0\<rparr>
        else Inl (RpcError ''NOT_FOUND''))\<rparr>"

definition example_session :: DekodeSession where
  "example_session =
     \<lparr>stub = example_stub,
      session_id = ''mock-session-1'',
      codebase_version = ''abc123'',
      summary = \<lparr>languages = [''rust'', ''python''], total_symbols = 42, total_files = 10\<rparr>\<rparr>"

section \<open>The tool router (dekode/tools.py)\<close>

text \<open>
  Modelled from the spec: the module \<^verbatim>\<open>dekode/tools.py\<close> (\<^verbatim>\<open>dekode_tools\<close>,
  \<^verbatim>\<open>dispatch_tool\<close>) is not among the sources; only its tests and its callers are.
  Everything in this section follows sections 3, 4, 6 and 7 of the specification.
\<close>

text \<open>
  Modelled from the spec: the argument bag's values, "JSON-compatible values (string,
  number, boolean, array, nested object, null)". Numbers are the integers; an object is
  its list of members, looked up with \<open>map_of\<close>.
\<close>

datatype json =
  JNull
| JBool bool
| JInt int
| JStr string
| JList "json list"
| JObj "(string \<times> json) list"

text \<open>
  Modelled from the spec: a descriptor's input schema, with \<open>type: "object"\<close>, the
  \<open>properties\<close> mapping (key to JSON type) and the \<open>required\<close> sequence.
\<close>

record InputSchema =
  schema_type :: string
  properties :: "(string \<times> string) list"
  required :: "string list"

text \<open>
  Modelled from the spec: the tool descriptor. The wording of the human description is
  not given by the spec and is left out.
\<close>

record ToolDescriptor =
  tool_name :: string
  input_schema :: InputSchema
  allowed_callers :: "string list"

text \<open>
  Modelled from the spec: every descriptor has an object schema and allows the
  code-execution caller (the tag is the one the tests look for).
\<close>

definition descriptor :: "string \<Rightarrow> (string \<times> string) list \<Rightarrow> string list \<Rightarrow> ToolDescriptor" where
  "descriptor n props req =
     \<lparr>tool_name = n,
      input_schema = \<lparr>schema_type = ''object'', properties = props, required = req\<rparr>,
      allowed_callers = [''code_execution_20260120'']\<rparr>"

text \<open>
  Modelled from the spec: the registry of section 4.1, the six tools in the order of its
  table, with the required and optional arguments of each row. It has no input.
\<close>

definition dekode_tools :: "ToolDescriptor list" where
  "dekode_tools =
     [descriptor ''dkod_connect''
        [(''codebase'', ''string''), (''intent'', ''string'')]
        [''codebase'', ''intent''],
      descriptor ''dkod_context''
        [(''query'', ''string''), (''depth'', ''string''), (''include_tests'', ''boolean''),
         (''include_dependencies'', ''boolean''), (''max_tokens'', ''integer'')]
        [''query''],
      descriptor ''dkod_read_file''
        [(''path'', ''string'')]
        [''path''],
      descriptor ''dkod_write_file''
        [(''path'', ''string''), (''content'', ''string'')]
        [''path'', ''content''],
      descriptor ''dkod_submit''
        [(''intent'', ''string''), (''changes'', ''array'')]
        [''intent'', ''changes''],
      descriptor ''dkod_session_status'' [] []]"

text \<open>
  Modelled from the spec: the alias table. The spec names two legacy aliases and says the
  names of the other four tools' aliases are not known; so the router takes the table as
  a parameter, and \<open>TOOL_ALIASES\<close> is the part that is known.
\<close>

definition TOOL_ALIASES :: "(string \<times> string) list" where
  "TOOL_ALIASES =
     [(''search_codebase'', ''dkod_context''),
      (''submit_changes'', ''dkod_submit'')]"

text \<open>
  Modelled from the spec: step 1 of the dispatcher, "resolve through the alias table
  first, falling back to treating it as canonical": a plain lookup.
\<close>

definition resolve_alias :: "(string \<times> string) list \<Rightarrow> string \<Rightarrow> string" where
  "resolve_alias aliases n = (case map_of aliases n of Some c \<Rightarrow> c | None \<Rightarrow> n)"

text \<open>Modelled from the spec: the known tools are the entries of the registry.\<close>

definition find_tool :: "string \<Rightarrow> ToolDescriptor option" where
  "find_tool n = find (\<lambda>t. tool_name t = n) dekode_tools"

text \<open>
  Modelled from the spec: the error taxonomy of section 7. An unknown-tool error carries
  the name as the caller gave it; a missing-argument error the tool and the field; an
  invalid-argument error the field, the received value and the allowed values or type; a
  transport error is the session's own error, unchanged.
\<close>

datatype expected = AllowedValues "string list" | ExpectedType string

datatype dispatch_error =
  UnknownToolError string
| MissingArgumentError string string
| InvalidArgumentError string json expected
| TransportError error

text \<open>
  Modelled from the spec: the operations of the session collaborator (section 6), with
  their arguments. An optional argument of the context operation that the bag does not
  hold is not passed (\<open>None\<close>), so that the operation's own default applies.
\<close>

datatype session_op =
  OpConnect string string
| OpContext string "ContextDepth option" "bool option" "bool option" "int option"
| OpFileRead string
| OpFileWrite string string
| OpSubmit "Change list" string
| OpStatus

text \<open>Sequencing of steps that can fail: the first error ends the computation.\<close>

definition bind_result :: "'x + 'a \<Rightarrow> ('a \<Rightarrow> 'x + 'b) \<Rightarrow> 'x + 'b" where
  "bind_result r f = (case r of Inl e \<Rightarrow> Inl e | Inr a \<Rightarrow> f a)"

text \<open>
  Modelled from the spec: "numeric-looking strings for \<open>max_tokens\<close> are accepted and
  converted". A numeric-looking string is a non-empty run of decimal digits, with an
  optional minus sign in front.
\<close>

definition digit_value :: "char \<Rightarrow> nat option" where
  "digit_value c =
     map_of [(CHR ''0'', 0), (CHR ''1'', 1), (CHR ''2'', 2), (CHR ''3'', 3), (CHR ''4'', 4),
             (CHR ''5'', 5), (CHR ''6'', 6), (CHR ''7'', 7), (CHR ''8'', 8), (CHR ''9'', 9)] c"

fun digits_value :: "nat \<Rightarrow> string \<Rightarrow> nat option" where
  "digits_value acc [] = Some acc"
| "digits_value acc (c # cs) =
     (case digit_value c of None \<Rightarrow> None | Some d \<Rightarrow> digits_value (10 * acc + d) cs)"

definition numeric_string :: "string \<Rightarrow> int option" where
  "numeric_string s =
     (case s of
        [] \<Rightarrow> None
      | c # cs \<Rightarrow>
          if c = CHR ''-''
          then (if cs = [] then None else map_option (\<lambda>n. - int n) (digits_value 0 cs))
          else map_option int (digits_value 0 s))"

text \<open>
  Modelled from the spec: the members an enum-valued field may hold, by their string
  values; the enums themselves are those of \<^verbatim>\<open>dekode/models.py\<close>.
\<close>

definition CONTEXT_DEPTH_MEMBERS :: "(string \<times> ContextDepth) list" where
  "CONTEXT_DEPTH_MEMBERS = map (\<lambda>m. (ContextDepth_value m, m)) [SIGNATURES, FULL, CALL_GRAPH]"

definition CHANGE_TYPE_MEMBERS :: "(string \<times> ChangeType) list" where
  "CHANGE_TYPE_MEMBERS =
     map (\<lambda>m. (ChangeType_value m, m))
       [MODIFY_FUNCTION, ADD_FUNCTION, DELETE_FUNCTION, MODIFY_TYPE, ADD_TYPE, ADD_DEPENDENCY]"

text \<open>
  Modelled from the spec: step 4, the typed reading of one value. A value of the wrong
  type, or an enum value that is no member, is an invalid-argument error; there is no
  coercion but the numeric string.
\<close>

definition get_string :: "string \<Rightarrow> json \<Rightarrow> dispatch_error + string" where
  "get_string field v =
     (case v of JStr s \<Rightarrow> Inr s | _ \<Rightarrow> Inl (InvalidArgumentError field v (ExpectedType ''string'')))"

definition get_bool :: "string \<Rightarrow> json \<Rightarrow> dispatch_error + bool" where
  "get_bool field v =
     (case v of JBool b \<Rightarrow> Inr b | _ \<Rightarrow> Inl (InvalidArgumentError field v (ExpectedType ''boolean'')))"

definition get_int :: "string \<Rightarrow> json \<Rightarrow> dispatch_error + int" where
  "get_int field v =
     (case v of
        JInt n \<Rightarrow> Inr n
      | JStr s \<Rightarrow>
          (case numeric_string s of
             Some n \<Rightarrow> Inr n
           | None \<Rightarrow> Inl (InvalidArgumentError field v (ExpectedType ''integer'')))
      | _ \<Rightarrow> Inl (InvalidArgumentError field v (ExpectedType ''integer'')))"

definition get_enum :: "(string \<times> 'a) list \<Rightarrow> string \<Rightarrow> json \<Rightarrow> dispatch_error + 'a" where
  "get_enum members field v =
     (case (case v of JStr s \<Rightarrow> map_of members s | _ \<Rightarrow> None) of
        Some m \<Rightarrow> Inr m
      | None \<Rightarrow> Inl (InvalidArgumentError field v (AllowedValues (map fst members))))"

text \<open>Modelled from the spec: an optional field is read when the bag holds it.\<close>

definition optional ::
  "(string \<Rightarrow> json \<Rightarrow> dispatch_error + 'a) \<Rightarrow> (string \<times> json) list \<Rightarrow> string \<Rightarrow>
   dispatch_error + 'a option" where
  "optional get args field =
     (case map_of args field of
        None \<Rightarrow> Inr None
      | Some v \<Rightarrow> bind_result (get field v) (\<lambda>a. Inr (Some a)))"

text \<open>Modelled from the spec: a required field that is absent is a missing-argument error.\<close>

definition mandatory ::
  "(string \<Rightarrow> json \<Rightarrow> dispatch_error + 'a) \<Rightarrow> string \<Rightarrow> (string \<times> json) list \<Rightarrow> string \<Rightarrow>
   dispatch_error + 'a" where
  "mandatory get tname args field =
     (case map_of args field of
        None \<Rightarrow> Inl (MissingArgumentError tname field)
      | Some v \<Rightarrow> get field v)"

text \<open>
  Modelled from the spec: step 3, the presence of the required fields, checked before
  any is used: the first required field, in the order of the schema, that the bag lacks.
\<close>

definition missing_argument :: "string list \<Rightarrow> (string \<times> json) list \<Rightarrow> string option" where
  "missing_argument req args = find (\<lambda>f. map_of args f = None) req"

text \<open>
  Modelled from the spec: the conversion of the \<open>changes\<close> array into a sequence of
  \<open>Change\<close> values (section 3): every field of \<open>Change\<close> but \<open>old_symbol_id\<close> is
  required, \<open>type\<close> is enum-valued, the others are strings.
\<close>

definition CHANGE_REQUIRED :: "string list" where
  "CHANGE_REQUIRED = [''type'', ''symbol_name'', ''file_path'', ''new_source'', ''rationale'']"

definition decode_change :: "string \<Rightarrow> json \<Rightarrow> dispatch_error + Change" where
  "decode_change tname v =
     (case v of
        JObj obj \<Rightarrow>
          (case missing_argument CHANGE_REQUIRED obj of
             Some f \<Rightarrow> Inl (MissingArgumentError tname f)
           | None \<Rightarrow>
               bind_result (mandatory (get_enum CHANGE_TYPE_MEMBERS) tname obj ''type'') (\<lambda>t.
               bind_result (mandatory get_string tname obj ''symbol_name'') (\<lambda>sn.
               bind_result (mandatory get_string tname obj ''file_path'') (\<lambda>fp.
               bind_result (mandatory get_string tname obj ''new_source'') (\<lambda>ns.
               bind_result (mandatory get_string tname obj ''rationale'') (\<lambda>ra.
               bind_result (optional get_string obj ''old_symbol_id'') (\<lambda>old.
                 Inr \<lparr>change_type = t, symbol_name = sn, file_path = fp, new_source = ns,
                      rationale = ra, old_symbol_id = old\<rparr>)))))))
      | _ \<Rightarrow> Inl (InvalidArgumentError ''changes'' v (ExpectedType ''object'')))"

text \<open>Modelled from the spec: the changes are converted in order; the first error ends it.\<close>

fun decode_changes :: "string \<Rightarrow> json list \<Rightarrow> dispatch_error + Change list" where
  "decode_changes tname [] = Inr []"
| "decode_changes tname (v # vs) =
     bind_result (decode_change tname v) (\<lambda>c.
     bind_result (decode_changes tname vs) (\<lambda>cs. Inr (c # cs)))"

text \<open>Modelled from the spec: the \<open>changes\<close> field must hold an array.\<close>

definition get_changes :: "string \<Rightarrow> string \<Rightarrow> json \<Rightarrow> dispatch_error + Change list" where
  "get_changes tname field v =
     (case v of
        JList vs \<Rightarrow> decode_changes tname vs
      | _ \<Rightarrow> Inl (InvalidArgumentError field v (ExpectedType ''array'')))"

text \<open>
  Modelled from the spec: steps 3 and 4 for each of the six tools, with the fields of the
  table of section 4.1 in its order, giving the session operation to invoke.
\<close>

definition decode_args :: "string \<Rightarrow> (string \<times> json) list \<Rightarrow> dispatch_error + session_op" where
  "decode_args tname args =
     (if tname = ''dkod_connect'' then
        bind_result (mandatory get_string tname args ''codebase'') (\<lambda>cb.
        bind_result (mandatory get_string tname args ''intent'') (\<lambda>i. Inr (OpConnect cb i)))
      else if tname = ''dkod_context'' then
        bind_result (mandatory get_string tname args ''query'') (\<lambda>q.
        bind_result (optional (get_enum CONTEXT_DEPTH_MEMBERS) args ''depth'') (\<lambda>d.
        bind_result (optional get_bool args ''include_tests'') (\<lambda>it.
        bind_result (optional get_bool args ''include_dependencies'') (\<lambda>idp.
        bind_result (optional get_int args ''max_tokens'') (\<lambda>mt.
          Inr (OpContext q d it idp mt))))))
      else if tname = ''dkod_read_file'' then
        bind_result (mandatory get_string tname args ''path'') (\<lambda>p. Inr (OpFileRead p))
      else if tname = ''dkod_write_file'' then
        bind_result (mandatory get_string tname args ''path'') (\<lambda>p.
        bind_result (mandatory get_string tname args ''content'') (\<lambda>c. Inr (OpFileWrite p c)))
      else if tname = ''dkod_submit'' then
        bind_result (mandatory get_string tname args ''intent'') (\<lambda>i.
        bind_result (mandatory (get_changes tname) tname args ''changes'') (\<lambda>cs.
          Inr (OpSubmit cs i)))
      else Inr OpStatus)"

text \<open>
  Modelled from the spec: steps 1 to 4 of the dispatcher. The name is resolved through
  the alias table; a resolved name that is no known tool fails with the name as given; a
  missing required field fails before any field is read; then the fields are read.
\<close>

definition plan_call ::
  "(string \<times> string) list \<Rightarrow> string \<Rightarrow> (string \<times> json) list \<Rightarrow> dispatch_error + session_op" where
  "plan_call aliases n args =
     (let resolved = resolve_alias aliases n in
      case find_tool resolved of
        None \<Rightarrow> Inl (UnknownToolError n)
      | Some t \<Rightarrow>
          (case missing_argument (required (input_schema t)) args of
             Some f \<Rightarrow> Inl (MissingArgumentError resolved f)
           | None \<Rightarrow> decode_args resolved args))"

text \<open>
  Modelled from the spec: \<^verbatim>\<open>dispatch_tool(session, name, args)\<close>, steps 1 to 7. The
  session is the collaborator of section 6, a function from the operation to its result
  or its error; the serialiser of results to JSON text is a parameter \<open>dumps\<close>. The
  operations invoked are returned beside the result: none when the call is rejected,
  one otherwise.
\<close>

definition dispatch_tool ::
  "(string \<times> string) list \<Rightarrow> ('r \<Rightarrow> string) \<Rightarrow> (session_op \<Rightarrow> error + 'r) \<Rightarrow> string \<Rightarrow>
   (string \<times> json) list \<Rightarrow> session_op list \<times> (dispatch_error + string)" where
  "dispatch_tool aliases dumps session n args =
     (case plan_call aliases n args of
        Inl e \<Rightarrow> ([], Inl e)
      | Inr op \<Rightarrow>
          ([op],
           case session op of
             Inl e \<Rightarrow> Inl (TransportError e)
           | Inr r \<Rightarrow> Inr (dumps r)))"

text \<open>A collaborator and a serialiser for examples.\<close>

definition example_collaborator :: "session_op \<Rightarrow> error + string" where
  "example_collaborator op =
     (case op of
        OpContext q d it idp mt \<Rightarrow> Inr (''symbols for '' @ q)
      | OpSubmit cs i \<Rightarrow> Inr ''ACCEPTED''
      | _ \<Rightarrow> Inl (RpcError ''UNAVAILABLE''))"

definition example_dumps :: "string \<Rightarrow> string" where
  "example_dumps r = r"

section \<open>Enum tables invert each other\<close>

lemma change_type_to_proto_total:
  "map_of (CHANGE_TYPE_TO_PROTO pb) t = Some (pb (ChangeType_value t))"
  by (cases t) (simp_all add: CHANGE_TYPE_TO_PROTO_def)

lemma context_depth_to_proto_total:
  "map_of (CONTEXT_DEPTH_TO_PROTO pb) d = Some (pb (ContextDepth_value d))"
  by (cases d) (simp_all add: CONTEXT_DEPTH_TO_PROTO_def)

text \<open>
  C10. The conversion tables invert each other. Provided the generated module numbers the
  constants of each enum with pairwise different integers, every \<open>ChangeType\<close> member
  \<open>t\<close> is a key of \<^verbatim>\<open>_CHANGE_TYPE_TO_PROTO\<close> and
  \<^verbatim>\<open>_CHANGE_TYPE_FROM_PROTO[_CHANGE_TYPE_TO_PROTO[t]]\<close> is \<open>t\<close>; and the proto
  constant named like a \<open>SubmitStatus\<close> member's string value is mapped by
  \<^verbatim>\<open>_SUBMIT_STATUS_FROM_PROTO\<close> to that member. Neither subscript raises.
\<close>

theorem enum_tables_roundtrip:
  assumes ct: "distinct (map pb [''MODIFY_FUNCTION'', ''ADD_FUNCTION'', ''DELETE_FUNCTION'',
                                 ''MODIFY_TYPE'', ''ADD_TYPE'', ''ADD_DEPENDENCY''])"
      and ss: "distinct (map pb [''ACCEPTED'', ''REJECTED'', ''CONFLICT''])"
  shows "(\<forall>t. \<exists>n. subscript (CHANGE_TYPE_TO_PROTO pb) t = Inr n \<and>
                 subscript_map (CHANGE_TYPE_FROM_PROTO pb) n = Inr t) \<and>
         (\<forall>s. subscript_map (SUBMIT_STATUS_FROM_PROTO pb) (pb (SubmitStatus_value s)) = Inr s)"
proof (intro conjI allI)
  fix t
  have "subscript_map (CHANGE_TYPE_FROM_PROTO pb) (pb (ChangeType_value t)) = Inr t"
    using ct
    by (cases t)
       (auto simp: subscript_map_def CHANGE_TYPE_FROM_PROTO_def CHANGE_TYPE_TO_PROTO_def dict_of_def)
  then show "\<exists>n. subscript (CHANGE_TYPE_TO_PROTO pb) t = Inr n \<and>
                 subscript_map (CHANGE_TYPE_FROM_PROTO pb) n = Inr t"
    by (simp add: subscript_def change_type_to_proto_total)
next
  fix s
  show "subscript_map (SUBMIT_STATUS_FROM_PROTO pb) (pb (SubmitStatus_value s)) = Inr s"
    using ss
    by (cases s) (auto simp: subscript_map_def SUBMIT_STATUS_FROM_PROTO_def dict_of_def)
qed

theorem enum_tables_roundtrip_witness:
  "(\<forall>t. \<exists>n. subscript (CHANGE_TYPE_TO_PROTO example_pb2) t = Inr n \<and>
           subscript_map (CHANGE_TYPE_FROM_PROTO example_pb2) n = Inr t) \<and>
   (\<forall>s. subscript_map (SUBMIT_STATUS_FROM_PROTO example_pb2)
           (example_pb2 (SubmitStatus_value s)) = Inr s)"
  by (rule enum_tables_roundtrip [of example_pb2]) (simp_all add: example_pb2_def)

section \<open>The session's operations\<close>

text \<open>
  C6. \<^verbatim>\<open>DekodeSession.context\<close> called with the query alone sends exactly one
  \<^verbatim>\<open>ContextRequest\<close>, carrying the session's id, the query, the proto number of
  depth \<open>FULL\<close>, \<open>include_tests = False\<close>, \<open>include_dependencies = False\<close>
  and \<open>max_tokens = 8000\<close>; when the RPC answers, the result is the
  \<open>ContextResult\<close> whose symbols, call-graph edges and dependencies are those of that
  one response, in its order and field by field (an optional field that is not set
  becomes \<open>None\<close>), and whose token estimate is the response's; when the RPC raises,
  its error is the result.
\<close>

theorem context_defaults:
  "DekodeSession_context pb self query None None None None =
     ([CallContext
         \<lparr>creq_session_id = session_id self,
          creq_query = query,
          creq_depth = pb ''FULL'',
          creq_include_tests = False,
          creq_include_dependencies = False,
          creq_max_tokens = 8000\<rparr>],
      case stub_Context (stub self)
             \<lparr>creq_session_id = session_id self,
              creq_query = query,
              creq_depth = pb ''FULL'',
              creq_include_tests = False,
              creq_include_dependencies = False,
              creq_max_tokens = 8000\<rparr> of
        Inl e \<Rightarrow> Inl e
      | Inr response \<Rightarrow>
          Inr \<lparr>symbols =
                 map (\<lambda>s.
                        \<lparr>sym_id = ref_id (sr_symbol s),
                         sym_name = ref_name (sr_symbol s),
                         sym_qualified_name = ref_qualified_name (sr_symbol s),
                         sym_kind = ref_kind (sr_symbol s),
                         sym_visibility = ref_visibility (sr_symbol s),
                         sym_file_path = ref_file_path (sr_symbol s),
                         sym_start_byte = ref_start_byte (sr_symbol s),
                         sym_end_byte = ref_end_byte (sr_symbol s),
                         sym_signature = ref_signature (sr_symbol s),
                         sym_doc_comment = ref_doc_comment (sr_symbol s),
                         sym_parent_id = ref_parent_id (sr_symbol s),
                         sym_source = sr_source s,
                         sym_caller_ids = sr_caller_ids s,
                         sym_callee_ids = sr_callee_ids s\<rparr>)
                   (cresp_symbols response),
               call_graph =
                 map (\<lambda>e.
                        \<lparr>edge_caller_id = er_caller_id e,
                         edge_callee_id = er_callee_id e,
                         edge_kind = er_kind e\<rparr>)
                   (cresp_call_graph response),
               dependencies =
                 map (\<lambda>d.
                        \<lparr>dep_package = dr_package d,
                         dep_version_req = dr_version_req d,
                         dep_used_by_symbol_ids = dr_used_by_symbol_ids d\<rparr>)
                   (cresp_dependencies response),
               estimated_tokens = cresp_estimated_tokens response\<rparr>)"
proof -
  have sym: "Symbol_from_symbol_result =
      (\<lambda>s. \<lparr>sym_id = ref_id (sr_symbol s),
                         sym_name = ref_name (sr_symbol s),
                         sym_qualified_name = ref_qualified_name (sr_symbol s),
                         sym_kind = ref_kind (sr_symbol s),
                         sym_visibility = ref_visibility (sr_symbol s),
                         sym_file_path = ref_file_path (sr_symbol s),
                         sym_start_byte = ref_start_byte (sr_symbol s),
                         sym_end_byte = ref_end_byte (sr_symbol s),
                         sym_signature = ref_signature (sr_symbol s),
                         sym_doc_comment = ref_doc_comment (sr_symbol s),
                         sym_parent_id = ref_parent_id (sr_symbol s),
                         sym_source = sr_source s,
                         sym_caller_ids = sr_caller_ids s,
                         sym_callee_ids = sr_callee_ids s\<rparr>)"
    by (rule ext) (simp add: Symbol_from_symbol_result_def Let_def)
  have edge: "CallEdge_from_proto =
      (\<lambda>e. \<lparr>edge_caller_id = er_caller_id e,
             edge_callee_id = er_callee_id e,
             edge_kind = er_kind e\<rparr>)"
    by (rule ext) (simp add: CallEdge_from_proto_def)
  have dep: "Dependency_from_proto =
      (\<lambda>d. \<lparr>dep_package = dr_package d,
             dep_version_req = dr_version_req d,
             dep_used_by_symbol_ids = dr_used_by_symbol_ids d\<rparr>)"
    by (rule ext) (simp add: Dependency_from_proto_def)
  show ?thesis
    by (simp add: DekodeSession_context_def Let_def subscript_def context_depth_to_proto_total
          ContextResult_from_proto_def sym edge dep split: sum.split)
qed

lemma to_proto_all_map:
  "to_proto_all pb cs =
     Inr (map (\<lambda>c. \<lparr>pbc_type = pb (ChangeType_value (change_type c)),
                    pbc_symbol_name = symbol_name c,
                    pbc_file_path = file_path c,
                    pbc_new_source = new_source c,
                    pbc_rationale = rationale c,
                    pbc_old_symbol_id = old_symbol_id c\<rparr>) cs)"
  by (induction cs)
     (simp_all add: Change_to_proto_def subscript_def change_type_to_proto_total
        split: option.splits)

text \<open>
  C7. \<^verbatim>\<open>Change.to_proto\<close> never raises; the message's type is the change's type
  looked up in \<^verbatim>\<open>_CHANGE_TYPE_TO_PROTO\<close>, its \<open>symbol_name\<close>, \<open>file_path\<close>,
  \<open>new_source\<close> and \<open>rationale\<close> are the change's, and its \<open>old_symbol_id\<close> is
  set exactly when the change's is not \<open>None\<close> (and then to the same value).
  \<^verbatim>\<open>DekodeSession.submit\<close> sends one \<^verbatim>\<open>SubmitRequest\<close> with the session's id,
  the intent, and the serialised changes in their order.
\<close>

theorem change_to_proto_and_submit:
  "\<exists>p ps. Change_to_proto pb c = Inr p \<and>
     subscript (CHANGE_TYPE_TO_PROTO pb) (change_type c) = Inr (pbc_type p) \<and>
     pbc_symbol_name p = symbol_name c \<and>
     pbc_file_path p = file_path c \<and>
     pbc_new_source p = new_source c \<and>
     pbc_rationale p = rationale c \<and>
     (pbc_old_symbol_id p \<noteq> None) = (old_symbol_id c \<noteq> None) \<and>
     pbc_old_symbol_id p = old_symbol_id c \<and>
     map (Change_to_proto pb) changes = map Inr ps \<and>
     fst (DekodeSession_submit pb self changes intent) =
       [CallSubmit \<lparr>sreq_session_id = session_id self,
                    sreq_intent = intent,
                    sreq_changes = ps\<rparr>]"
proof -
  let ?f = "\<lambda>c. \<lparr>pbc_type = pb (ChangeType_value (change_type c)),
                    pbc_symbol_name = symbol_name c,
                    pbc_file_path = file_path c,
                    pbc_new_source = new_source c,
                    pbc_rationale = rationale c,
                    pbc_old_symbol_id = old_symbol_id c\<rparr>"
  have one: "Change_to_proto pb x = Inr (?f x)" for x
    by (simp add: Change_to_proto_def subscript_def change_type_to_proto_total
          split: option.splits)
  have sent: "fst (DekodeSession_submit pb self changes intent) =
       [CallSubmit \<lparr>sreq_session_id = session_id self,
                    sreq_intent = intent,
                    sreq_changes = map ?f changes\<rparr>]"
    by (simp add: DekodeSession_submit_def Let_def to_proto_all_map)
  have "map (Change_to_proto pb) changes = map Inr (map ?f changes)"
    by (simp add: one)
  with one [of c] sent show ?thesis
    by (intro exI [of _ "?f c"] exI [of _ "map ?f changes"])
       (simp add: subscript_def change_type_to_proto_total)
qed

text \<open>
  C8. When the status RPC returns a response, \<^verbatim>\<open>DekodeSession.session_status\<close>
  returns the dict with exactly the keys \<open>session_id\<close>, \<open>base_commit\<close>,
  \<open>files_modified\<close>, \<open>symbols_modified\<close>, \<open>overlay_size_bytes\<close> and
  \<open>active_other_sessions\<close>, each holding the response's field of that name (the two
  repeated fields as lists of strings), after sending one request with the session's id.
\<close>

theorem session_status_mapping:
  assumes "stub_GetSessionStatus (stub self) \<lparr>streq_session_id = session_id self\<rparr> = Inr response"
  shows "DekodeSession_session_status self =
           ([CallGetSessionStatus \<lparr>streq_session_id = session_id self\<rparr>],
            Inr [(''session_id'', PStr (stresp_session_id response)),
                 (''base_commit'', PStr (stresp_base_commit response)),
                 (''files_modified'', PList (map PStr (stresp_files_modified response))),
                 (''symbols_modified'', PList (map PStr (stresp_symbols_modified response))),
                 (''overlay_size_bytes'', PInt (stresp_overlay_size_bytes response)),
                 (''active_other_sessions'', PInt (stresp_active_other_sessions response))])"
  using assms by (simp add: DekodeSession_session_status_def Let_def)


theorem session_status_mapping_witness:
  "DekodeSession_session_status example_session =
     ([CallGetSessionStatus \<lparr>streq_session_id = ''mock-session-1''\<rparr>],
      Inr [(''session_id'', PStr ''mock-session-1''),
           (''base_commit'', PStr ''abc123''),
           (''files_modified'', PList [PStr ''src/config.rs'']),
           (''symbols_modified'', PList [PStr ''parse_config'']),
           (''overlay_size_bytes'', PInt 120),
           (''active_other_sessions'', PInt 0)])"
  using session_status_mapping [of example_session
      "\<lparr>stresp_session_id = ''mock-session-1'',
                  stresp_base_commit = ''abc123'',
                  stresp_files_modified = [''src/config.rs''],
                  stresp_symbols_modified = [''parse_config''],
                  stresp_overlay_size_bytes = 120,
                  stresp_active_other_sessions = 0\<rparr>"]
  by (simp add: example_session_def example_stub_def)

lemma utf8_decode_replace_total: "\<exists>content. utf8_decode Replace bs = Inr content"
  by (induction "Replace" bs rule: utf8_decode.induct)
     (auto split: utf8_step.splits sum.splits)

lemma utf8_decode_strict_agrees:
  "utf8_decode Strict bs = Inr content \<Longrightarrow> utf8_decode Replace bs = Inr content"
  by (induction "Replace" bs arbitrary: content rule: utf8_decode.induct)
     (auto split: utf8_step.splits sum.splits)

lemma utf8_decode_strict_fails:
  "utf8_decode Strict bs = Inl e \<Longrightarrow> utf8_decode Replace bs = Inr content \<Longrightarrow>
   e = UnicodeDecodeError \<and> 65533 \<in> set content"
  by (induction "Replace" bs arbitrary: content rule: utf8_decode.induct)
     (auto split: utf8_step.splits sum.splits)

text \<open>
  C9. Whatever bytes the file-read RPC returns, \<^verbatim>\<open>DekodeSession.file_read\<close> raises no
  decoding error: decoding with \<^verbatim>\<open>errors="replace"\<close> always gives a text, which is
  the strict decoding when the bytes are valid UTF-8 and otherwise contains U+FFFD where
  strict decoding would raise; the result is the dict with exactly the keys
  \<open>content\<close>, \<open>hash\<close> and \<open>modified_in_session\<close>.
\<close>

theorem file_read_never_decode_error:
  assumes "stub_FileRead (stub self) \<lparr>freq_session_id = session_id self, freq_path = path\<rparr>
             = Inr response"
  shows "\<exists>content.
           bytes_decode (fresp_content response) Replace = Inr content \<and>
           (bytes_decode (fresp_content response) Strict = Inr content \<or>
            bytes_decode (fresp_content response) Strict = Inl UnicodeDecodeError \<and>
            65533 \<in> set content) \<and>
           DekodeSession_file_read self path =
             ([CallFileRead \<lparr>freq_session_id = session_id self, freq_path = path\<rparr>],
              Inr [(''content'', PText content),
                   (''hash'', PStr (fresp_hash response)),
                   (''modified_in_session'', PBool (fresp_modified_in_session response))])"
proof -
  let ?bs = "map unat (fresp_content response)"
  obtain content where r: "utf8_decode Replace ?bs = Inr content"
    using utf8_decode_replace_total by blast
  have "utf8_decode Strict ?bs = Inr content \<or>
        utf8_decode Strict ?bs = Inl UnicodeDecodeError \<and> 65533 \<in> set content"
  proof (cases "utf8_decode Strict ?bs")
    case (Inl e)
    with r utf8_decode_strict_fails show ?thesis by blast
  next
    case (Inr t)
    with r utf8_decode_strict_agrees [OF Inr] show ?thesis by simp
  qed
  with r assms show ?thesis
    by (intro exI [of _ content])
       (simp add: DekodeSession_file_read_def Let_def bytes_decode_def)
qed

theorem file_read_never_decode_error_witness:
  "bytes_decode [0x66, 0x6E, 0xFF, 0xE2, 0x82, 0xAC] Replace = Inr [102, 110, 65533, 8364] \<and>
   bytes_decode [0x66, 0x6E, 0xFF, 0xE2, 0x82, 0xAC] Strict = Inl UnicodeDecodeError \<and>
   DekodeSession_file_read example_session ''src/config.rs'' =
     ([CallFileRead \<lparr>freq_session_id = ''mock-session-1'', freq_path = ''src/config.rs''\<rparr>],
      Inr [(''content'', PText [102, 110, 65533, 8364]),
           (''hash'', PStr ''h1''),
           (''modified_in_session'', PBool True)])"
  using file_read_never_decode_error [of example_session "''src/config.rs''"
      "\<lparr>fresp_content = [0x66, 0x6E, 0xFF, 0xE2, 0x82, 0xAC],
        fresp_hash = ''h1'',
        fresp_modified_in_session = True\<rparr>"]
  by (simp add: example_session_def example_stub_def bytes_decode_def utf8_next_def
        is_continuation_def)

section \<open>The tool router\<close>

lemmas router_defs = plan_call_def resolve_alias_def find_tool_def dekode_tools_def descriptor_def
  TOOL_ALIASES_def missing_argument_def decode_args_def bind_result_def mandatory_def
  optional_def get_string_def get_bool_def get_int_def get_enum_def CONTEXT_DEPTH_MEMBERS_def
  CHANGE_TYPE_MEMBERS_def numeric_string_def digit_value_def decode_change_def get_changes_def
  CHANGE_REQUIRED_def

lemma resolve_alias_hit: "map_of aliases a = Some c \<Longrightarrow> resolve_alias aliases a = c"
  by (simp add: resolve_alias_def)

lemma resolve_alias_miss: "map_of aliases a = None \<Longrightarrow> resolve_alias aliases a = a"
  by (simp add: resolve_alias_def)

lemma plan_call_resolved:
  "resolve_alias aliases a = resolve_alias aliases b \<Longrightarrow> plan_call aliases b args = Inr op \<Longrightarrow>
   plan_call aliases a args = Inr op"
  by (auto simp: plan_call_def Let_def split: option.splits)

text \<open>
  C2. Let \<open>legacy\<close> be an alias of \<open>canonical\<close> in the alias table, \<open>canonical\<close> not
  itself a key of the table, and \<open>args\<close> a bag that is valid for \<open>canonical\<close>
  (steps 1 to 4 give the operation \<open>op\<close>). Then the alias resolves to the canonical
  name by the lookup, which is a known tool, the same bag under the alias gives the same
  operation with the same arguments, exactly that operation is invoked, and the two
  dispatches agree in what they invoke and what they return.
\<close>

theorem dispatch_alias_equivalent:
  assumes legacy: "map_of aliases legacy = Some canonical"
      and canon: "map_of aliases canonical = None"
      and valid: "plan_call aliases canonical args = Inr op"
  shows "resolve_alias aliases legacy = canonical \<and>
         find_tool canonical \<noteq> None \<and>
         plan_call aliases legacy args = Inr op \<and>
         fst (dispatch_tool aliases dumps session legacy args) = [op] \<and>
         dispatch_tool aliases dumps session legacy args =
           dispatch_tool aliases dumps session canonical args"
proof -
  have r: "resolve_alias aliases legacy = resolve_alias aliases canonical"
    using legacy canon by (simp add: resolve_alias_hit resolve_alias_miss)
  have p: "plan_call aliases legacy args = Inr op"
    using r valid by (rule plan_call_resolved)
  have known: "find_tool canonical \<noteq> None"
    using valid canon
    by (auto simp: plan_call_def Let_def resolve_alias_miss split: option.splits)
  from p valid known legacy show ?thesis
    by (simp add: dispatch_tool_def resolve_alias_hit)
qed

theorem dispatch_alias_equivalent_witness:
  "resolve_alias TOOL_ALIASES ''search_codebase'' = ''dkod_context'' \<and>
   dispatch_tool TOOL_ALIASES example_dumps example_collaborator ''search_codebase''
       [(''query'', JStr ''parse_config'')] =
     ([OpContext ''parse_config'' None None None None], Inr ''symbols for parse_config'') \<and>
   dispatch_tool TOOL_ALIASES example_dumps example_collaborator ''search_codebase''
       [(''query'', JStr ''parse_config'')] =
     dispatch_tool TOOL_ALIASES example_dumps example_collaborator ''dkod_context''
       [(''query'', JStr ''parse_config'')]"
proof -
  have v: "plan_call TOOL_ALIASES ''dkod_context'' [(''query'', JStr ''parse_config'')] =
             Inr (OpContext ''parse_config'' None None None None)"
    by (simp add: router_defs)
  have a: "map_of TOOL_ALIASES ''search_codebase'' = Some ''dkod_context''"
    by (simp add: TOOL_ALIASES_def)
  have c: "map_of TOOL_ALIASES ''dkod_context'' = None"
    by (simp add: TOOL_ALIASES_def)
  show ?thesis
    using dispatch_alias_equivalent [OF a c v, of example_dumps example_collaborator] v
    by (simp add: dispatch_tool_def example_collaborator_def example_dumps_def)
qed

text \<open>
  C3. When the resolved name is not a known tool, the dispatch fails with the unknown-tool
  error that carries the name as the caller gave it, and no session operation is invoked.
\<close>

theorem dispatch_unknown_tool:
  assumes "find_tool (resolve_alias aliases n) = None"
  shows "dispatch_tool aliases dumps session n args = ([], Inl (UnknownToolError n))"
  using assms by (simp add: dispatch_tool_def plan_call_def)

theorem dispatch_unknown_tool_witness:
  "dispatch_tool TOOL_ALIASES example_dumps example_collaborator ''nope'' [] =
     ([], Inl (UnknownToolError ''nope'')) \<and>
   dispatch_tool [(''old_search'', ''dkod_search'')] example_dumps example_collaborator
       ''old_search'' [] =
     ([], Inl (UnknownToolError ''old_search''))"
  using dispatch_unknown_tool [of TOOL_ALIASES "''nope''" example_dumps example_collaborator "[]"]
        dispatch_unknown_tool [of "[(''old_search'', ''dkod_search'')]" "''old_search''"
          example_dumps example_collaborator "[]"]
  by (simp add: resolve_alias_def TOOL_ALIASES_def find_tool_def dekode_tools_def descriptor_def)

text \<open>
  C4. When the resolved name is a known tool and the bag lacks a field that the tool's
  schema requires, the dispatch fails with a missing-argument error that names the
  resolved tool and a required field that the bag lacks (the first one, in the order of
  the schema), and no session operation is invoked.
\<close>

theorem dispatch_missing_argument:
  assumes known: "find_tool (resolve_alias aliases n) = Some t"
      and req: "f \<in> set (required (input_schema t))"
      and absent: "map_of args f = None"
  shows "\<exists>g \<in> set (required (input_schema t)).
           map_of args g = None \<and>
           dispatch_tool aliases dumps session n args =
             ([], Inl (MissingArgumentError (resolve_alias aliases n) g))"
proof -
  from req absent obtain g where
    g: "missing_argument (required (input_schema t)) args = Some g"
    unfolding missing_argument_def by (cases "find (\<lambda>f. map_of args f = None) (required (input_schema t))") (auto simp: find_None_iff)
  then have "g \<in> set (required (input_schema t))" "map_of args g = None"
    unfolding missing_argument_def by (auto simp: find_Some_iff)
  with g known show ?thesis
    by (auto simp: dispatch_tool_def plan_call_def Let_def)
qed

theorem dispatch_missing_argument_witness:
  "dispatch_tool TOOL_ALIASES example_dumps example_collaborator ''dkod_context'' [] =
     ([], Inl (MissingArgumentError ''dkod_context'' ''query''))"
  using dispatch_missing_argument [of TOOL_ALIASES "''dkod_context''"
      "descriptor ''dkod_context''
        [(''query'', ''string''), (''depth'', ''string''), (''include_tests'', ''boolean''),
         (''include_dependencies'', ''boolean''), (''max_tokens'', ''integer'')]
        [''query'']" "''query''" "[]" example_dumps example_collaborator]
  by (simp add: resolve_alias_def TOOL_ALIASES_def find_tool_def dekode_tools_def descriptor_def)

end
